theory Spec2Isabelle
  imports Complex_Main "HOL-Library.Sublist"
begin

section \<open>JavaScript values\<close>

text \<open>
  The values that travel through \<^verbatim>\<open>routes/tools.js\<close> are JSON values: the fields of a
  store record and the entries of a request body. A property that is missing
  (\<^verbatim>\<open>undefined\<close>) is \<open>None\<close> of a map lookup. Strings are lists of 8-bit code units,
  read as the Latin-1 range of JavaScript's UTF-16 code units.
\<close>

datatype jsval =
    JNull
  | JBool bool
  | JNum rat
  | JStr string
  | JArr "jsval list"
  | JObj "(string \<times> jsval) list"

text \<open>JavaScript's ToBoolean: \<^verbatim>\<open>null\<close>, \<^verbatim>\<open>false\<close>, \<^verbatim>\<open>0\<close> and \<^verbatim>\<open>''\<close> are falsy.\<close>

fun truthy :: "jsval \<Rightarrow> bool" where
  "truthy JNull = False"
| "truthy (JBool b) = b"
| "truthy (JNum n) = (n \<noteq> 0)"
| "truthy (JStr s) = (s \<noteq> [])"
| "truthy (JArr xs) = True"
| "truthy (JObj kvs) = True"

text \<open>\<^verbatim>\<open>v || d\<close> where \<^verbatim>\<open>v\<close> is a property read that may be \<^verbatim>\<open>undefined\<close>.\<close>

fun orElse :: "jsval option \<Rightarrow> jsval \<Rightarrow> jsval" where
  "orElse None d = d"
| "orElse (Some v) d = (if truthy v then v else d)"

section \<open>Record normalization: \<^verbatim>\<open>formatRecord\<close>\<close>

record airtable_record =
  rec_id :: string
  rec_fields :: "string \<rightharpoonup> jsval"

record tool =
  tool_id :: string
  name :: jsval
  description :: jsval
  shortDescription :: jsval
  url :: jsval
  category :: jsval
  rating :: jsval
  imageUrl :: jsval
  author :: jsval

definition formatRecord :: "airtable_record \<Rightarrow> tool" where
  "formatRecord record =
     (let fields = rec_fields record in
      \<lparr> tool_id = rec_id record,
        name = orElse (fields ''title'') (JStr ''Untitled Tool''),
        description = orElse (fields ''description'') (JStr ''''),
        shortDescription = orElse (fields ''description'') (JStr ''''),
        url = orElse (fields ''link'') JNull,
        category = orElse (fields ''tags'') JNull,
        rating = orElse (fields ''rating'') JNull,
        imageUrl = orElse (fields ''thumbnail'') JNull,
        author = orElse (fields ''author'') JNull \<rparr>)"

section \<open>String operations of the platform\<close>

abbreviation quote :: char where "quote \<equiv> CHR 0x27"
abbreviation backslash :: char where "backslash \<equiv> CHR 0x5C"
abbreviation dquote :: char where "dquote \<equiv> CHR 0x22"
abbreviation newline :: char where "newline \<equiv> CHR 0x0A"

text \<open>
  \<^verbatim>\<open>String.prototype.toLowerCase\<close> on code units below 256: the letters A to Z and the
  Latin-1 capitals (192 to 222, without the multiplication sign 215) move up by 32.
\<close>

definition lower_unit :: "char \<Rightarrow> char" where
  "lower_unit c =
     (let n = (of_char c :: nat) in
      if (65 \<le> n \<and> n \<le> 90) \<or> (192 \<le> n \<and> n \<le> 222 \<and> n \<noteq> 215)
      then char_of (n + 32) else c)"

definition toLowerCase :: "string \<Rightarrow> string" where
  "toLowerCase s = map lower_unit s"

text \<open>
  \<^verbatim>\<open>String.prototype.trim\<close> removes white space and line terminators from both ends:
  below 256 these are TAB, LF, VT, FF, CR, SPACE and NBSP.
\<close>

definition isWhite :: "char \<Rightarrow> bool" where
  "isWhite c = ((of_char c :: nat) \<in> {9, 10, 11, 12, 13, 32, 160})"

definition trim :: "string \<Rightarrow> string" where
  "trim s = rev (dropWhile isWhite (rev (dropWhile isWhite s)))"

text \<open>\<^verbatim>\<open>.replace(/'/g, "\\'")\<close>: every single quote becomes backslash, quote.\<close>

fun escapeQuotes :: "string \<Rightarrow> string" where
  "escapeQuotes [] = []"
| "escapeQuotes (c # cs) =
     (if c = quote then backslash # quote # escapeQuotes cs else c # escapeQuotes cs)"

text \<open>\<^verbatim>\<open>s.split(d)\<close> for a one-character separator; the empty string gives \<^verbatim>\<open>['']\<close>.\<close>

fun split_at :: "char \<Rightarrow> string \<Rightarrow> string list" where
  "split_at d [] = [[]]"
| "split_at d (c # cs) =
     (if c = d then [] # split_at d cs
      else (case split_at d cs of
              [] \<Rightarrow> [[c]]
            | w # ws \<Rightarrow> (c # w) # ws))"

text \<open>\<^verbatim>\<open>xs.join(sep)\<close>.\<close>

fun join :: "string \<Rightarrow> string list \<Rightarrow> string" where
  "join sep [] = []"
| "join sep [x] = x"
| "join sep (x # y # ys) = x @ sep @ join sep (y # ys)"

section \<open>The list query: \<^verbatim>\<open>router.get('/')\<close>\<close>

text \<open>
  The query parameters, each a string or absent. (Repeated or bracketed parameters,
  which the framework parses to arrays and objects, are not modelled.)
\<close>

record query =
  q_search :: "string option"
  q_category :: "string option"
  q_sortBy :: "string option"
  q_sortOrder :: "string option"

text \<open>The template literal pushed for a search term, with its line breaks and indentation.\<close>

definition searchClause :: "string \<Rightarrow> string" where
  "searchClause searchTerm =
     ''OR('' @ [newline]
     @ replicate 16 CHR '' '' @ ''SEARCH('' @ [quote] @ searchTerm @ [quote] @ '', {title}),'' @ [newline]
     @ replicate 16 CHR '' '' @ ''SEARCH('' @ [quote] @ searchTerm @ [quote] @ '', {description}),'' @ [newline]
     @ replicate 16 CHR '' '' @ ''SEARCH('' @ [quote] @ searchTerm @ [quote] @ '', {tags})'' @ [newline]
     @ replicate 12 CHR '' '' @ '')''"

text \<open>Step 1: the parts pushed by \<^verbatim>\<open>if (search) { ... }\<close>.\<close>

definition searchParts :: "string option \<Rightarrow> string list" where
  "searchParts search =
     (case search of
        None \<Rightarrow> []
      | Some s \<Rightarrow>
          if s = [] then []
          else (let searchTerm = escapeQuotes (toLowerCase s) in [searchClause searchTerm]))"

definition categoryList :: "string \<Rightarrow> string list" where
  "categoryList cats =
     filter (\<lambda>cat. length cat > 0)
       (map (\<lambda>cat. escapeQuotes (trim cat)) (split_at CHR '','' cats))"

definition searchFormula :: "string \<Rightarrow> string" where
  "searchFormula catTerm = ''SEARCH('' @ [quote] @ catTerm @ [quote] @ '', {tags})''"

definition categoryClause :: "string list \<Rightarrow> string" where
  "categoryClause terms = ''OR('' @ join '', '' (map searchFormula terms) @ '')''"

text \<open>Step 2: the parts pushed by \<^verbatim>\<open>if (category) { ... }\<close>.\<close>

definition categoryParts :: "string option \<Rightarrow> string list" where
  "categoryParts cats =
     (case cats of
        None \<Rightarrow> []
      | Some c \<Rightarrow>
          if c = [] then []
          else if length (categoryList c) > 0 then [categoryClause (categoryList c)]
          else [])"

definition formulaParts :: "query \<Rightarrow> string list" where
  "formulaParts q = searchParts (q_search q) @ categoryParts (q_category q)"

text \<open>Step 3.\<close>

definition filterByFormula :: "query \<Rightarrow> string" where
  "filterByFormula q =
     (if length (formulaParts q) > 0 then ''AND('' @ join '', '' (formulaParts q) @ '')''
      else [])"

text \<open>Step 4. The destructuring defaults apply to an absent parameter only.\<close>

definition validSortFields :: "string list" where
  "validSortFields = [''title'', ''rating'']"

definition safeSortBy :: "string option \<Rightarrow> string" where
  "safeSortBy sortBy =
     (let sb = (case sortBy of None \<Rightarrow> ''title'' | Some s \<Rightarrow> s) in
      if sb \<in> set validSortFields then sb else ''title'')"

definition safeSortOrder :: "string option \<Rightarrow> string" where
  "safeSortOrder sortOrder =
     (let so = (case sortOrder of None \<Rightarrow> ''asc'' | Some s \<Rightarrow> s) in
      if so = ''desc'' then ''desc'' else ''asc'')"

record sort_spec =
  field :: string
  direction :: string

definition fieldsToSelect :: "string list" where
  "fieldsToSelect =
     [''title'', ''description'', ''link'', ''tags'', ''rating'', ''thumbnail'', ''author'']"

record select_params =
  sel_pageSize :: nat
  sel_filterByFormula :: string
  sel_sort :: "sort_spec list"
  sel_fields :: "string list"

definition selectParams :: "query \<Rightarrow> select_params" where
  "selectParams q =
     \<lparr> sel_pageSize = 100,
       sel_filterByFormula = filterByFormula q,
       sel_sort = [\<lparr> field = safeSortBy (q_sortBy q), direction = safeSortOrder (q_sortOrder q) \<rparr>],
       sel_fields = fieldsToSelect \<rparr>"

section \<open>String literals of the store's formula language\<close>

text \<open>
  Modelled from the spec: the string-literal syntax of the store's formula language. The
  store is a hosted service and no part of the repository; the specification gives the
  escape the code relies on (a quote inside a literal is written backslash, quote). So a
  backslash inside a literal takes the next character literally, and an unescaped quote
  of the opening kind ends the literal. \<open>scan\<close> follows a formula text character by
  character and tells where it stands: outside any literal, in a single- or double-quoted
  literal, or just after a backslash in one of them.
\<close>

datatype scan_mode = Outside | InSingle | EscSingle | InDouble | EscDouble

fun scan_step :: "scan_mode \<Rightarrow> char \<Rightarrow> scan_mode" where
  "scan_step Outside c = (if c = quote then InSingle else if c = dquote then InDouble else Outside)"
| "scan_step InSingle c = (if c = backslash then EscSingle else if c = quote then Outside else InSingle)"
| "scan_step EscSingle c = InSingle"
| "scan_step InDouble c = (if c = backslash then EscDouble else if c = dquote then Outside else InDouble)"
| "scan_step EscDouble c = InDouble"

fun scan :: "scan_mode \<Rightarrow> string \<Rightarrow> scan_mode" where
  "scan m [] = m"
| "scan m (c # cs) = scan (scan_step m c) cs"

text \<open>A formula text is lexically well formed when every literal it opens is closed.\<close>

definition literals_closed :: "string \<Rightarrow> bool" where
  "literals_closed formula = (scan Outside formula = Outside)"

text \<open>
  Modelled from the spec: how the store reads one literal. \<open>read_literal\<close> takes the text
  after an opening single quote and gives the characters the literal stands for, with
  each escape resolved, and the text after the closing quote; it gives \<open>None\<close> when the
  text ends before the literal is closed.
\<close>

fun read_literal :: "string \<Rightarrow> (string \<times> string) option" where
  "read_literal [] = None"
| "read_literal [c] = (if c = quote then Some ([], []) else None)"
| "read_literal (c # d # cs) =
     (if c = quote then Some ([], d # cs)
      else if c = backslash then map_option (\<lambda>(body, rest). (d # body, rest)) (read_literal cs)
      else map_option (\<lambda>(body, rest). (c # body, rest)) (read_literal (d # cs)))"

section \<open>The store and the outcome of a request\<close>

text \<open>
  The store is the hosted table service behind the client library; each of its three
  operations either answers or throws an error object with the properties
  \<^verbatim>\<open>statusCode\<close>, \<^verbatim>\<open>error\<close> and \<^verbatim>\<open>message\<close>.
\<close>

record store_error =
  statusCode :: "nat option"
  error :: "string option"
  err_message :: string

type_synonym field_map = "(string \<times> jsval option) list"

record store =
  st_select :: "string \<Rightarrow> select_params \<Rightarrow> store_error + airtable_record list"
  st_find :: "string \<Rightarrow> string \<Rightarrow> store_error + airtable_record"
  st_create :: "string \<Rightarrow> field_map list \<Rightarrow> store_error + airtable_record list"

datatype store_call =
    Select string select_params
  | Find string string
  | Create string "field_map list"

text \<open>An \<^verbatim>\<open>Error\<close> made by a handler, with the properties the handlers set on it.\<close>

record js_error =
  message :: string
  status :: "nat option"
  details :: "(string \<times> string) list option"

definition Error :: "string \<Rightarrow> js_error" where
  "Error msg = \<lparr> message = msg, status = None, details = None \<rparr>"

text \<open>
  How a request fails: \<open>Next e\<close> is \<^verbatim>\<open>next(error)\<close> with an error made by the handler,
  \<open>NextStore e\<close> is \<^verbatim>\<open>next(err)\<close> with the store's own error, and \<open>Rejected\<close> is an
  exception that leaves the async handler, so that \<^verbatim>\<open>next\<close> is never called.
\<close>

datatype failure = Next js_error | NextStore store_error | Rejected string

text \<open>
  The status sent by the general error handler of \<^verbatim>\<open>server.js\<close>,
  \<^verbatim>\<open>res.status(err.status || 500)\<close>. The store's error objects have no \<^verbatim>\<open>status\<close>.
\<close>

fun http_status :: "failure \<Rightarrow> nat option" where
  "http_status (Next e) =
     Some (case status e of None \<Rightarrow> 500 | Some s \<Rightarrow> if s = 0 then 500 else s)"
| "http_status (NextStore e) = Some 500"
| "http_status (Rejected m) = None"

text \<open>
  Every handler starts with \<^verbatim>\<open>if (!tableName)\<close>: without a table name (the variable
  unset or empty) it fails before any store call.
\<close>

definition listTools ::
  "string option \<Rightarrow> store \<Rightarrow> query \<Rightarrow> store_call list \<times> (failure + tool list)" where
  "listTools tableName st q =
     (case tableName of
        None \<Rightarrow> ([], Inl (Next (Error ''Airtable table name not configured.'')))
      | Some t \<Rightarrow>
          if t = [] then ([], Inl (Next (Error ''Airtable table name not configured.'')))
          else
            ([Select t (selectParams q)],
             case st_select st t (selectParams q) of
               Inl err \<Rightarrow> Inl (NextStore err)
             | Inr records \<Rightarrow> Inr (map formatRecord records)))"

section \<open>Get by id: \<^verbatim>\<open>router.get('/:id')\<close>\<close>

definition notFoundMessage :: "string \<Rightarrow> string" where
  "notFoundMessage ident = ''Tool with ID '' @ [quote] @ ident @ [quote] @ '' not found''"

definition getTool ::
  "string option \<Rightarrow> store \<Rightarrow> string \<Rightarrow> store_call list \<times> (failure + tool)" where
  "getTool tableName st ident =
     (case tableName of
        None \<Rightarrow> ([], Inl (Next (Error ''Airtable table name not configured.'')))
      | Some t \<Rightarrow>
          if t = [] then ([], Inl (Next (Error ''Airtable table name not configured.'')))
          else
            ([Find t ident],
             case st_find st t ident of
               Inr record \<Rightarrow> Inr (formatRecord record)
             | Inl err \<Rightarrow>
                 if statusCode err = Some 404 \<or> error err = Some ''NOT_FOUND''
                 then Inl (Next \<lparr> message = notFoundMessage ident,
                                  status = Some 404, details = None \<rparr>)
                 else Inl (NextStore err)))"

section \<open>Create: \<^verbatim>\<open>router.post('/submit')\<close>\<close>

text \<open>
  \<^verbatim>\<open>!v?.trim()\<close> for a body entry \<^verbatim>\<open>v\<close>. The optional chain stops at \<^verbatim>\<open>undefined\<close> and
  \<^verbatim>\<open>null\<close> only: on a number, a boolean, an array or an object \<^verbatim>\<open>v.trim\<close> is not a
  function and the call throws a TypeError, which is \<open>None\<close> here.
\<close>

fun blank :: "jsval option \<Rightarrow> bool option" where
  "blank None = Some True"
| "blank (Some JNull) = Some True"
| "blank (Some (JStr s)) = Some (trim s = [])"
| "blank (Some v) = None"

definition required :: "string \<Rightarrow> string \<Rightarrow> jsval option \<Rightarrow> (string \<times> string) list option" where
  "required key msg v = map_option (\<lambda>b. if b then [(key, msg)] else []) (blank v)"

text \<open>
  The URL check. \<^verbatim>\<open>new URL(s)\<close> belongs to the platform; \<open>parseURL s\<close> says whether it
  returns (rather than throws) on the string \<open>s\<close>.
\<close>

fun checkURL :: "(string \<Rightarrow> bool) \<Rightarrow> jsval option \<Rightarrow> (string \<times> string) list option" where
  "checkURL parseURL None = Some [(''URL'', ''Tool URL is required'')]"
| "checkURL parseURL (Some JNull) = Some [(''URL'', ''Tool URL is required'')]"
| "checkURL parseURL (Some (JStr s)) =
     Some (if trim s = [] then [(''URL'', ''Tool URL is required'')]
           else if parseURL s then [] else [(''URL'', ''Invalid URL format'')])"
| "checkURL parseURL (Some v) = None"

text \<open>The four checks in the order of the source; \<open>None\<close> when one of them throws.\<close>

definition validate :: "(string \<Rightarrow> bool) \<Rightarrow> (string \<rightharpoonup> jsval) \<Rightarrow> (string \<times> string) list option" where
  "validate parseURL receivedData =
     (case required ''Tool Name'' ''Tool Name is required'' (receivedData ''Tool Name'') of
        None \<Rightarrow> None
      | Some e1 \<Rightarrow>
     (case checkURL parseURL (receivedData ''URL'') of
        None \<Rightarrow> None
      | Some e2 \<Rightarrow>
     (case required ''Description'' ''Description is required'' (receivedData ''Description'') of
        None \<Rightarrow> None
      | Some e3 \<Rightarrow>
     (case required ''Category'' ''Category is required'' (receivedData ''Category'') of
        None \<Rightarrow> None
      | Some e4 \<Rightarrow> Some (e1 @ e2 @ e3 @ e4)))))"

definition newToolData :: "(string \<rightharpoonup> jsval) \<Rightarrow> field_map" where
  "newToolData receivedData =
     [(''title'', receivedData ''Tool Name''), (''link'', receivedData ''URL''),
      (''description'', receivedData ''Description''), (''tags'', receivedData ''Category'')]
     @ (case receivedData ''Image URL'' of
          None \<Rightarrow> []
        | Some v \<Rightarrow> if truthy v then [(''thumbnail'', Some v)] else [])"

definition submitTool ::
  "string option \<Rightarrow> (string \<Rightarrow> bool) \<Rightarrow> store \<Rightarrow> (string \<rightharpoonup> jsval)
     \<Rightarrow> store_call list \<times> (failure + nat \<times> tool)" where
  "submitTool tableName parseURL st receivedData =
     (case tableName of
        None \<Rightarrow> ([], Inl (Next (Error ''Airtable table name is not configured.'')))
      | Some t \<Rightarrow>
          if t = [] then ([], Inl (Next (Error ''Airtable table name is not configured.'')))
          else
            (case validate parseURL receivedData of
               None \<Rightarrow> ([], Inl (Rejected ''TypeError''))
             | Some errors \<Rightarrow>
                 if length errors > 0
                 then ([], Inl (Next \<lparr> message = ''Validation failed'',
                                       status = Some 400, details = Some errors \<rparr>))
                 else
                   ([Create t [newToolData receivedData]],
                    case st_create st t [newToolData receivedData] of
                      Inl err \<Rightarrow> Inl (NextStore err)
                    | Inr [] \<Rightarrow> Inl (Next (Error ''Cannot read properties of undefined''))
                    | Inr (created # others) \<Rightarrow> Inr (201, formatRecord created))))"

text \<open>
  To run the handler on a concrete request a URL parser is needed. \<open>hasScheme\<close> is a
  stand-in for the platform's: it accepts a string that begins with a scheme (a letter,
  then letters, digits, \<^verbatim>\<open>+\<close>, \<^verbatim>\<open>-\<close> or \<^verbatim>\<open>.\<close>, then a colon) and rejects the others. On
  the inputs used below it answers as the platform does: \<^verbatim>\<open>notaurl\<close> has no scheme and
  is rejected, the \<^verbatim>\<open>https\<close> addresses are accepted. The general theorems hold for every
  parser.
\<close>

definition isAlpha :: "char \<Rightarrow> bool" where
  "isAlpha c = (let n = (of_char c :: nat) in (65 \<le> n \<and> n \<le> 90) \<or> (97 \<le> n \<and> n \<le> 122))"

definition isSchemeChar :: "char \<Rightarrow> bool" where
  "isSchemeChar c =
     (let n = (of_char c :: nat) in
      isAlpha c \<or> (48 \<le> n \<and> n \<le> 57) \<or> n = 43 \<or> n = 45 \<or> n = 46)"

definition hasScheme :: "string \<Rightarrow> bool" where
  "hasScheme s =
     (case s of
        [] \<Rightarrow> False
      | c # cs \<Rightarrow> isAlpha c \<and> (case dropWhile isSchemeChar cs of [] \<Rightarrow> False | d # ds \<Rightarrow> d = CHR '':''))"

section \<open>The search box of the home page: \<^verbatim>\<open>HomePage.tsx\<close>\<close>

text \<open>
  The state of the page that the search box touches: the text shown in the box, the
  settled search term, the category check boxes in the order they were first set, the sort
  token, the pending call of the debounced setter with the time it is due, the time, and
  the requests sent so far. Time is counted in the units of the debounce interval.
\<close>

record fetch_params =
  p_search :: "string option"
  p_category :: "string option"
  p_sortBy :: string
  p_sortOrder :: string

record page =
  inputValue :: string
  searchTerm :: string
  selectedCategories :: "(string \<times> bool) list"
  sortValue :: string
  pending :: "(string \<times> nat) option"
  clock :: nat
  fetched :: "fetch_params list"

text \<open>
  The derived sort state: \<^verbatim>\<open>sortValue.split('-')\<close>, with \<^verbatim>\<open>field || 'title'\<close> and
  \<^verbatim>\<open>order || 'asc'\<close> (a missing part and an empty one both take the default).
\<close>

definition sortPair :: "string \<Rightarrow> string \<times> string" where
  "sortPair sv =
     (let parts = split_at CHR ''-'' sv;
          fld = (case parts of [] \<Rightarrow> [] | f # rest \<Rightarrow> f);
          ord = (case parts of f # ord # rest \<Rightarrow> ord | _ \<Rightarrow> [])
      in (if fld = [] then ''title'' else fld, if ord = [] then ''asc'' else ord))"

text \<open>The parameters that \<^verbatim>\<open>fetchTools\<close> passes to \<^verbatim>\<open>getTools\<close>.\<close>

definition fetchTools :: "page \<Rightarrow> fetch_params" where
  "fetchTools pg =
     (let activeCategories = map fst (filter snd (selectedCategories pg));
          categoryParam = (if length activeCategories > 0
                           then Some (join '','' activeCategories) else None)
      in \<lparr> p_search = (if searchTerm pg = [] then None else Some (searchTerm pg)),
           p_category = categoryParam,
           p_sortBy = fst (sortPair (sortValue pg)),
           p_sortOrder = snd (sortPair (sortValue pg)) \<rparr>)"

text \<open>
  Modelled from the spec: the re-fetch rule of the framework's effect. A fetch is issued
  whenever the debounced search term, the category selection or the sort token changes.
  \<^verbatim>\<open>fetchTools\<close> is rebuilt only when one of its dependencies has a new value, and the
  effect depends on \<^verbatim>\<open>fetchTools\<close> alone; so setting the search term to the value it
  already has sends nothing, and setting it to another value sends one request made from
  the new state.
\<close>

definition setSearchTerm :: "string \<Rightarrow> page \<Rightarrow> page" where
  "setSearchTerm v pg =
     (if v = searchTerm pg then pg
      else pg\<lparr> searchTerm := v, fetched := fetched pg @ [fetchTools (pg\<lparr> searchTerm := v \<rparr>)] \<rparr>)"

text \<open>
  Modelled from the spec: the debounce timer. The debounced setter comes from a library;
  the specification describes it as a timer that runs the callback once the interval (400
  time units) has passed since the last call, a call before that cancelling the pending
  run and scheduling a new one.
\<close>

definition debouncedSetSearchTerm :: "string \<Rightarrow> page \<Rightarrow> page" where
  "debouncedSetSearchTerm v pg = pg\<lparr> pending := Some (v, clock pg + 400) \<rparr>"

definition handleSearchInputChange :: "string \<Rightarrow> page \<Rightarrow> page" where
  "handleSearchInputChange v pg = debouncedSetSearchTerm v (pg\<lparr> inputValue := v \<rparr>)"

text \<open>Time passes: a pending call that has come due runs.\<close>

definition elapse :: "nat \<Rightarrow> page \<Rightarrow> page" where
  "elapse d pg =
     (case pending pg of
        None \<Rightarrow> pg\<lparr> clock := clock pg + d \<rparr>
      | Some (v, due) \<Rightarrow>
          if due \<le> clock pg + d
          then (setSearchTerm v (pg\<lparr> pending := None \<rparr>))\<lparr> clock := clock pg + d \<rparr>
          else pg\<lparr> clock := clock pg + d \<rparr>)"

text \<open>
  What happens to the page: a keystroke that leaves the given text in the box, or a
  stretch of time without input. A burst is a first keystroke followed by keystrokes each
  after a gap.
\<close>

datatype event = Key string | Wait nat

fun step :: "page \<Rightarrow> event \<Rightarrow> page" where
  "step pg (Key v) = handleSearchInputChange v pg"
| "step pg (Wait d) = elapse d pg"

fun run :: "page \<Rightarrow> event list \<Rightarrow> page" where
  "run pg [] = pg"
| "run pg (e # es) = run (step pg e) es"

fun burst :: "(nat \<times> string) list \<Rightarrow> event list" where
  "burst [] = []"
| "burst ((gap, v) # ks) = Wait gap # Key v # burst ks"

text \<open>The page after mounting: the initial state, and the one request of the first render.\<close>

definition mounted :: page where
  "mounted =
     (let pg = \<lparr> inputValue = [], searchTerm = [], selectedCategories = [],
                  sortValue = ''title-asc'', pending = None, clock = 0, fetched = [] \<rparr>
      in pg\<lparr> fetched := [fetchTools pg] \<rparr>)"

section \<open>The category terms as the specification words them\<close>

text \<open>
  The specification derives the term list of a \<^verbatim>\<open>category\<close> parameter by splitting on
  commas, trimming each segment and dropping the empty segments. \<open>specTerms\<close> is that
  reading, to be compared with \<open>categoryList\<close>, which is what the code computes.
\<close>

definition specTerms :: "string \<Rightarrow> string list" where
  "specTerms cats = filter (\<lambda>seg. seg \<noteq> []) (map trim (split_at CHR '','' cats))"

section \<open>Example stores\<close>

text \<open>
  Two stores to run the handlers on. \<open>sampleStore\<close> holds one record, answers an
  unknown id with the store's not-found error and answers a creation with one new record
  per field map, carrying the fields it was sent. \<open>downStore\<close> fails every call with a
  503.
\<close>

definition sampleRecord :: airtable_record where
  "sampleRecord =
     \<lparr> rec_id = ''rec1'',
       rec_fields = [''title'' \<mapsto> JStr ''Orbit'', ''tags'' \<mapsto> JStr ''Space'', ''rating'' \<mapsto> JNum 4] \<rparr>"

definition notFound :: store_error where
  "notFound = \<lparr> statusCode = Some 404, error = Some ''NOT_FOUND'', err_message = ''Not found'' \<rparr>"

definition unavailable :: store_error where
  "unavailable =
     \<lparr> statusCode = Some 503, error = Some ''SERVICE_UNAVAILABLE'', err_message = ''Try again'' \<rparr>"

definition sent :: "field_map \<Rightarrow> (string \<rightharpoonup> jsval)" where
  "sent fs = map_of (List.map_filter (\<lambda>(k, v). map_option (Pair k) v) fs)"

definition sampleStore :: store where
  "sampleStore =
     \<lparr> st_select = (\<lambda>t p. Inr [sampleRecord]),
       st_find = (\<lambda>t i. if i = ''rec1'' then Inr sampleRecord else Inl notFound),
       st_create = (\<lambda>t fss. Inr (map (\<lambda>fs. \<lparr> rec_id = ''rec2'', rec_fields = sent fs \<rparr>) fss)) \<rparr>"

definition downStore :: store where
  "downStore =
     \<lparr> st_select = (\<lambda>t p. Inl unavailable),
       st_find = (\<lambda>t i. Inl unavailable),
       st_create = (\<lambda>t fss. Inl unavailable) \<rparr>"

section \<open>Example submissions\<close>

text \<open>
  Three request bodies: one without a name and a description, one that also has a URL
  without a scheme, and a complete one with an image.
\<close>

definition twoMissing :: "string \<rightharpoonup> jsval" where
  "twoMissing = [''URL'' \<mapsto> JStr ''https://example.com'', ''Category'' \<mapsto> JStr ''VR'']"

definition twoMissingBadURL :: "string \<rightharpoonup> jsval" where
  "twoMissingBadURL = [''URL'' \<mapsto> JStr ''notaurl'', ''Category'' \<mapsto> JStr ''VR'']"

definition fullSubmission :: "string \<rightharpoonup> jsval" where
  "fullSubmission =
     [''Tool Name'' \<mapsto> JStr ''Orbit'', ''URL'' \<mapsto> JStr ''https://example.com'',
      ''Description'' \<mapsto> JStr ''A tour of the planets'', ''Category'' \<mapsto> JStr ''Space'',
      ''Image URL'' \<mapsto> JStr ''https://example.com/orbit.png'']"

section \<open>Properties of \<^verbatim>\<open>formatRecord\<close>\<close>

lemma orElse_falsy: "\<not> truthy v \<Longrightarrow> orElse (Some v) d = orElse None d"
  by simp

lemma orElse_not_empty: "d \<noteq> JStr [] \<Longrightarrow> orElse v d \<noteq> JStr []"
  by (cases v) auto

text \<open>
  C2. A store record whose rating field holds the number 0 is normalized to a
  \<open>rating\<close> of \<^verbatim>\<open>null\<close>, the same output as for a record without a rating field:
  \<^verbatim>\<open>fields['rating'] || null\<close> takes the zero for a missing value.
\<close>

theorem formatRecord_rating_zero_is_null:
  "rating (formatRecord \<lparr> rec_id = ''rec1'', rec_fields = [''rating'' \<mapsto> JNum 0] \<rparr>) = JNull
   \<and> rating (formatRecord \<lparr> rec_id = ''rec1'', rec_fields = Map.empty \<rparr>) = JNull"
  by (simp add: formatRecord_def)

text \<open>
  C10. Every falsy stored value is read as a missing one. For a falsy value \<open>v\<close>:
  storing \<open>v\<close> under any field gives the same normalized record as not storing the
  field; a falsy title gives the name 'Untitled Tool'; a falsy link, tags, thumbnail or
  author gives \<^verbatim>\<open>null\<close>. And whatever the record, its normalized name, url, category,
  imageUrl and author are never the empty string.
\<close>

theorem formatRecord_falsy_is_missing:
  "\<not> truthy v \<Longrightarrow>
     formatRecord (r\<lparr>rec_fields := (rec_fields r)(k \<mapsto> v)\<rparr>)
       = formatRecord (r\<lparr>rec_fields := (rec_fields r)(k := None)\<rparr>)
     \<and> name (formatRecord (r\<lparr>rec_fields := (rec_fields r)(''title'' \<mapsto> v)\<rparr>))
         = JStr ''Untitled Tool''
     \<and> url (formatRecord (r\<lparr>rec_fields := (rec_fields r)(''link'' \<mapsto> v)\<rparr>)) = JNull
     \<and> category (formatRecord (r\<lparr>rec_fields := (rec_fields r)(''tags'' \<mapsto> v)\<rparr>)) = JNull
     \<and> imageUrl (formatRecord (r\<lparr>rec_fields := (rec_fields r)(''thumbnail'' \<mapsto> v)\<rparr>)) = JNull
     \<and> author (formatRecord (r\<lparr>rec_fields := (rec_fields r)(''author'' \<mapsto> v)\<rparr>)) = JNull
     \<and> name (formatRecord r) \<noteq> JStr ''''
     \<and> url (formatRecord r) \<noteq> JStr ''''
     \<and> category (formatRecord r) \<noteq> JStr ''''
     \<and> imageUrl (formatRecord r) \<noteq> JStr ''''
     \<and> author (formatRecord r) \<noteq> JStr ''''"
  by (simp add: formatRecord_def Let_def orElse_not_empty)

theorem formatRecord_falsy_is_missing_witness:
  "\<not> truthy (JStr '''')
   \<and> formatRecord \<lparr> rec_id = ''rec1'', rec_fields = [''link'' \<mapsto> JStr ''''] \<rparr>
       = formatRecord \<lparr> rec_id = ''rec1'', rec_fields = Map.empty \<rparr>
   \<and> name (formatRecord \<lparr> rec_id = ''rec1'', rec_fields = [''title'' \<mapsto> JStr ''''] \<rparr>)
       = JStr ''Untitled Tool''
   \<and> url (formatRecord \<lparr> rec_id = ''rec1'', rec_fields = [''link'' \<mapsto> JStr ''''] \<rparr>) = JNull"
  using formatRecord_falsy_is_missing
          [of "JStr ''''" "\<lparr> rec_id = ''rec1'', rec_fields = Map.empty \<rparr>" "''link''"]
        formatRecord_falsy_is_missing
          [of "JStr ''''" "\<lparr> rec_id = ''rec1'', rec_fields = Map.empty \<rparr>" "''title''"]
  by simp

section \<open>Properties of the list query\<close>

lemma searchParts_length: "length (searchParts x) \<le> 1"
  by (simp add: searchParts_def split: option.splits)

lemma categoryParts_length: "length (categoryParts x) \<le> 1"
  by (simp add: categoryParts_def split: option.splits)

lemma listTools_select:
  "t \<noteq> [] \<Longrightarrow> fst (listTools (Some t) st q) = [Select t (selectParams q)]"
  by (simp add: listTools_def)

text \<open>
  C1 (as amended). The formula sent to the store is the one built in step 3. Each of the
  two steps pushes at most one clause. With a search clause \<open>s\<close> and a category clause
  \<open>c\<close> the formula is \<^verbatim>\<open>AND(s, c)\<close>; with one clause \<open>x\<close> only it is \<^verbatim>\<open>AND(x)\<close>, the
  clause as the single argument of \<^verbatim>\<open>AND\<close>; with no clause it is the empty string.
\<close>

theorem filter_combination:
  "sel_filterByFormula (selectParams q) = filterByFormula q
   \<and> length (searchParts (q_search q)) \<le> 1
   \<and> length (categoryParts (q_category q)) \<le> 1
   \<and> (searchParts (q_search q) = [s] \<and> categoryParts (q_category q) = [c]
        \<longrightarrow> filterByFormula q = ''AND('' @ s @ '', '' @ c @ '')'')
   \<and> (searchParts (q_search q) = [s] \<and> categoryParts (q_category q) = []
        \<longrightarrow> filterByFormula q = ''AND('' @ s @ '')'')
   \<and> (searchParts (q_search q) = [] \<and> categoryParts (q_category q) = [c]
        \<longrightarrow> filterByFormula q = ''AND('' @ c @ '')'')
   \<and> (searchParts (q_search q) = [] \<and> categoryParts (q_category q) = []
        \<longrightarrow> filterByFormula q = [])"
  using searchParts_length [of "q_search q"] categoryParts_length [of "q_category q"]
  by (simp add: selectParams_def filterByFormula_def formulaParts_def)

theorem filter_combination_witness:
  "searchParts (Some ''vr'') = [searchClause ''vr'']
   \<and> categoryParts (Some ''VR,History'') = [categoryClause [''VR'', ''History'']]
   \<and> categoryParts None = [] \<and> searchParts None = []
   \<and> filterByFormula \<lparr> q_search = Some ''vr'', q_category = Some ''VR,History'',
                        q_sortBy = None, q_sortOrder = None \<rparr>
       = ''AND('' @ searchClause ''vr'' @ '', '' @ categoryClause [''VR'', ''History''] @ '')''
   \<and> filterByFormula \<lparr> q_search = Some ''vr'', q_category = None,
                        q_sortBy = None, q_sortOrder = None \<rparr>
       = ''AND('' @ searchClause ''vr'' @ '')''
   \<and> filterByFormula \<lparr> q_search = None, q_category = Some ''VR,History'',
                        q_sortBy = None, q_sortOrder = None \<rparr>
       = ''AND('' @ categoryClause [''VR'', ''History''] @ '')''
   \<and> filterByFormula \<lparr> q_search = None, q_category = None,
                        q_sortBy = None, q_sortOrder = None \<rparr> = []"
proof -
  have s: "searchParts (Some ''vr'') = [searchClause ''vr'']"
    by code_simp
  have c: "categoryParts (Some ''VR,History'') = [categoryClause [''VR'', ''History'']]"
    by code_simp
  have n: "categoryParts None = []" "searchParts None = []"
    by (simp_all add: categoryParts_def searchParts_def)
  show ?thesis
    using s c n
      filter_combination
        [of "\<lparr> q_search = Some ''vr'', q_category = Some ''VR,History'',
               q_sortBy = None, q_sortOrder = None \<rparr>"
            "searchClause ''vr''" "categoryClause [''VR'', ''History'']"]
      filter_combination
        [of "\<lparr> q_search = Some ''vr'', q_category = None,
               q_sortBy = None, q_sortOrder = None \<rparr>"
            "searchClause ''vr''" "[]"]
      filter_combination
        [of "\<lparr> q_search = None, q_category = Some ''VR,History'',
               q_sortBy = None, q_sortOrder = None \<rparr>"
            "[]" "categoryClause [''VR'', ''History'']"]
      filter_combination
        [of "\<lparr> q_search = None, q_category = None,
               q_sortBy = None, q_sortOrder = None \<rparr>" "[]" "[]"]
    by simp
qed

text \<open>
  C1 as stated fails: a search for \<^verbatim>\<open>vr\<close> without a category gives one clause, and the
  formula is not that clause alone.
\<close>

theorem filter_single_clause_counterexample:
  "formulaParts \<lparr> q_search = Some ''vr'', q_category = None, q_sortBy = None, q_sortOrder = None \<rparr>
     = [searchClause ''vr'']
   \<and> filterByFormula \<lparr> q_search = Some ''vr'', q_category = None, q_sortBy = None, q_sortOrder = None \<rparr>
     \<noteq> searchClause ''vr''"
  by code_simp

text \<open>
  C6. The store is asked for one sort key. Its field is \<^verbatim>\<open>title\<close> for every \<^verbatim>\<open>sortBy\<close>
  that is absent or neither \<^verbatim>\<open>title\<close> nor \<^verbatim>\<open>rating\<close>, and the given one otherwise; its
  direction is \<^verbatim>\<open>asc\<close> for every \<^verbatim>\<open>sortOrder\<close> that is absent or not exactly \<^verbatim>\<open>desc\<close>,
  and \<^verbatim>\<open>desc\<close> otherwise.
\<close>

theorem sort_fallback:
  "sel_sort (selectParams q)
     = [\<lparr> field = safeSortBy (q_sortBy q), direction = safeSortOrder (q_sortOrder q) \<rparr>]
   \<and> (q_sortBy q \<notin> {Some ''title'', Some ''rating''} \<longrightarrow> safeSortBy (q_sortBy q) = ''title'')
   \<and> (q_sortBy q \<in> {Some ''title'', Some ''rating''} \<longrightarrow> Some (safeSortBy (q_sortBy q)) = q_sortBy q)
   \<and> (q_sortOrder q \<noteq> Some ''desc'' \<longrightarrow> safeSortOrder (q_sortOrder q) = ''asc'')
   \<and> (q_sortOrder q = Some ''desc'' \<longrightarrow> safeSortOrder (q_sortOrder q) = ''desc'')"
  by (auto simp: selectParams_def safeSortBy_def safeSortOrder_def validSortFields_def
        split: option.splits)

theorem sort_fallback_witness:
  "sel_sort (selectParams \<lparr> q_search = None, q_category = None,
                             q_sortBy = Some ''price'', q_sortOrder = Some ''DESC'' \<rparr>)
     = [\<lparr> field = ''title'', direction = ''asc'' \<rparr>]
   \<and> sel_sort (selectParams \<lparr> q_search = None, q_category = None,
                             q_sortBy = None, q_sortOrder = None \<rparr>)
     = [\<lparr> field = ''title'', direction = ''asc'' \<rparr>]
   \<and> sel_sort (selectParams \<lparr> q_search = None, q_category = None,
                             q_sortBy = Some ''rating'', q_sortOrder = Some ''desc'' \<rparr>)
     = [\<lparr> field = ''rating'', direction = ''desc'' \<rparr>]"
  using sort_fallback [of "\<lparr> q_search = None, q_category = None,
                             q_sortBy = Some ''price'', q_sortOrder = Some ''DESC'' \<rparr>"]
        sort_fallback [of "\<lparr> q_search = None, q_category = None,
                             q_sortBy = None, q_sortOrder = None \<rparr>"]
        sort_fallback [of "\<lparr> q_search = None, q_category = None,
                             q_sortBy = Some ''rating'', q_sortOrder = Some ''desc'' \<rparr>"]
  by simp

subsection \<open>The category terms\<close>

lemma escapeQuotes_Nil_iff: "escapeQuotes s = [] \<longleftrightarrow> s = []"
  by (cases s) auto

lemma escapeQuotes_id: "quote \<notin> set s \<Longrightarrow> escapeQuotes s = s"
  by (induction s) auto

lemma split_at_subset: "w \<in> set (split_at d s) \<Longrightarrow> set w \<subseteq> set s"
proof (induction s arbitrary: w)
  case Nil
  then show ?case by simp
next
  case (Cons c cs)
  show ?case
  proof (cases "c = d")
    case True
    with Cons show ?thesis by auto
  next
    case False
    show ?thesis
    proof (cases "split_at d cs")
      case Nil
      with False Cons.prems show ?thesis by simp
    next
      case (Cons a as)
      with False Cons.prems have "w = c # a \<or> w \<in> set as" by simp
      moreover have "set a \<subseteq> set cs" and "\<And>v. v \<in> set as \<Longrightarrow> set v \<subseteq> set cs"
        using Cons.IH Cons by simp_all
      ultimately show ?thesis by auto
    qed
  qed
qed

lemma trim_subset: "set (trim s) \<subseteq> set s"
proof -
  have "set (trim s) \<subseteq> set (rev (dropWhile isWhite s))"
    unfolding trim_def by (metis set_rev subsetI set_dropWhileD)
  also have "\<dots> \<subseteq> set s"
    by (auto dest: set_dropWhileD)
  finally show ?thesis .
qed

lemma specTerms_subset: "w \<in> set (specTerms cats) \<Longrightarrow> set w \<subseteq> set cats"
  using split_at_subset trim_subset by (fastforce simp: specTerms_def)

lemma categoryList_specTerms: "categoryList cats = map escapeQuotes (specTerms cats)"
  by (simp add: categoryList_def specTerms_def filter_map comp_def escapeQuotes_Nil_iff)

text \<open>
  The text of the category clause: the code's term list is the specification's list with
  the quotes of each term escaped, and a non-empty list gives \<^verbatim>\<open>OR(...)\<close> over one
  \<^verbatim>\<open>SEARCH('term', {tags})\<close> per term, joined by a comma and a space.
\<close>

lemma category_clause_text:
  "categoryList cats = map escapeQuotes (specTerms cats)
   \<and> (quote \<notin> set cats \<longrightarrow> categoryList cats = specTerms cats)
   \<and> categoryList '' VR , ,History '' = [''VR'', ''History'']
   \<and> (cats \<noteq> [] \<and> categoryList cats \<noteq> [] \<longrightarrow>
        categoryParts (Some cats) =
          [''OR('' @ join '', '' (map (\<lambda>catTerm. ''SEARCH('' @ [quote] @ catTerm @ [quote] @ '', {tags})'')
                                    (categoryList cats)) @ '')''])
   \<and> (cats = [] \<or> categoryList cats = [] \<longrightarrow> categoryParts (Some cats) = [])"
proof -
  have a: "categoryList cats = map escapeQuotes (specTerms cats)"
    by (rule categoryList_specTerms)
  have b: "categoryList cats = specTerms cats" if "quote \<notin> set cats"
  proof -
    have "escapeQuotes w = w" if "w \<in> set (specTerms cats)" for w
      using that specTerms_subset [of w cats] \<open>quote \<notin> set cats\<close>
      by (intro escapeQuotes_id) auto
    then show ?thesis
      unfolding a by (simp add: map_idI)
  qed
  have c: "categoryList '' VR , ,History '' = [''VR'', ''History'']"
    by code_simp
  have d: "searchFormula = (\<lambda>catTerm. ''SEARCH('' @ [quote] @ catTerm @ [quote] @ '', {tags})'')"
    by (rule ext) (simp add: searchFormula_def)
  show ?thesis
    using a b c by (simp add: categoryParts_def categoryClause_def d)
qed

subsection \<open>The search term\<close>

lemma scan_append: "scan m (a @ b) = scan (scan m a) b"
  by (induction a arbitrary: m) auto

lemma scan_escaped_term: "backslash \<notin> set s \<Longrightarrow> scan InSingle (escapeQuotes s) = InSingle"
  by (induction s) auto

lemma scan_no_quotes: "quote \<notin> set p \<Longrightarrow> dquote \<notin> set p \<Longrightarrow> scan Outside p = Outside"
  by (induction p) auto

lemma scan_spaces: "scan Outside (replicate n CHR '' '') = Outside"
  by (rule scan_no_quotes) simp_all

lemma backslash_code: "(of_char backslash :: nat) = 92"
  by simp

lemma lower_unit_backslash: "lower_unit c = backslash \<longleftrightarrow> c = backslash"
proof
  assume a: "lower_unit c = backslash"
  show "c = backslash"
  proof (rule ccontr)
    assume n: "c \<noteq> backslash"
    define k where "k = (of_char c :: nat)"
    have l: "lower_unit c =
        (if (65 \<le> k \<and> k \<le> 90) \<or> (192 \<le> k \<and> k \<le> 222 \<and> k \<noteq> 215)
         then char_of (k + 32) else c)"
      unfolding lower_unit_def k_def Let_def ..
    have r: "(65 \<le> k \<and> k \<le> 90) \<or> (192 \<le> k \<and> k \<le> 222 \<and> k \<noteq> 215)"
      using a n l by metis
    then have "char_of (k + 32) = backslash"
      using a l by metis
    then have "(of_char (char_of (k + 32)) :: nat) = of_char backslash"
      by (rule arg_cong)
    then have m: "(k + 32) mod 256 = 92"
      unfolding of_char_of backslash_code .
    from r have "k + 32 < 256" by linarith
    then have "(k + 32) mod 256 = k + 32" by (rule mod_less)
    with m r show False by linarith
  qed
next
  assume c: "c = backslash"
  have "\<not> ((65 \<le> (92::nat) \<and> (92::nat) \<le> 90)
            \<or> (192 \<le> (92::nat) \<and> (92::nat) \<le> 222 \<and> (92::nat) \<noteq> 215))"
    by simp
  then show "lower_unit c = backslash"
    unfolding lower_unit_def Let_def c backslash_code by (rule if_not_P)
qed

lemma toLowerCase_backslash: "backslash \<in> set (toLowerCase s) \<longleftrightarrow> backslash \<in> set s"
proof -
  have "backslash \<in> set (toLowerCase s) \<longleftrightarrow> (\<exists>c\<in>set s. lower_unit c = backslash)"
    unfolding toLowerCase_def set_map image_iff by metis
  then show ?thesis by (simp add: lower_unit_backslash)
qed

lemma literals_closed_searchClause:
  "backslash \<notin> set s \<Longrightarrow> literals_closed (searchClause (escapeQuotes s))"
  by (simp add: literals_closed_def searchClause_def scan_append scan_escaped_term scan_spaces)

text \<open>
  What the escaping achieves: the clause pushed for a search term is the template around
  the lower-cased term with its quotes escaped, and for a term without a backslash every
  literal of the resulting formula is closed where the template closes it.
\<close>

lemma search_without_backslash:
  "s \<noteq> [] \<Longrightarrow>
   searchParts (Some s) = [searchClause (escapeQuotes (toLowerCase s))]
   \<and> (backslash \<notin> set s \<longrightarrow>
         literals_closed (filterByFormula \<lparr> q_search = Some s, q_category = None,
                                             q_sortBy = sb, q_sortOrder = so \<rparr>))"
  using literals_closed_searchClause [of "toLowerCase s"]
  by (simp add: filterByFormula_def formulaParts_def searchParts_def categoryParts_def
        toLowerCase_backslash literals_closed_def scan_append)

text \<open>
  C4. The search term backslash, quote contains a single quote. Its quote is escaped and
  its backslash is not, so the term becomes backslash, backslash, quote: the two
  backslashes read as one escaped backslash and the quote ends the literal, before the
  quote that the template puts after the term. That quote opens a new literal, the text
  up to the end of the first \<^verbatim>\<open>SEARCH\<close> argument list is still inside it, and the
  formula sent to the store ends inside an unclosed literal.
\<close>

theorem search_term_backslash_quote:
  "searchParts (Some [backslash, quote]) = [searchClause [backslash, backslash, quote]]
   \<and> scan InSingle [backslash, backslash, quote] = Outside
   \<and> scan InSingle ([backslash, backslash, quote] @ [quote] @ '', {title}),'') = InSingle
   \<and> \<not> literals_closed (filterByFormula \<lparr> q_search = Some [backslash, quote], q_category = None,
                                           q_sortBy = None, q_sortOrder = None \<rparr>)"
  by code_simp

subsection \<open>The category clause as the store reads it\<close>

lemma read_literal_quote: "read_literal (quote # rest) = Some ([], rest)"
  by (cases rest) simp_all

lemma read_literal_plain:
  "c \<noteq> quote \<Longrightarrow> c \<noteq> backslash \<Longrightarrow>
   read_literal (c # cs) = map_option (\<lambda>(body, rest). (c # body, rest)) (read_literal cs)"
  by (cases cs) simp_all

lemma read_literal_escaped_quote:
  "read_literal (backslash # quote # cs) = map_option (\<lambda>(body, rest). (quote # body, rest)) (read_literal cs)"
  by simp

lemma read_literal_escaped:
  "backslash \<notin> set s \<Longrightarrow> read_literal (escapeQuotes s @ quote # rest) = Some (s, rest)"
proof (induction s)
  case Nil
  then show ?case by (simp add: read_literal_quote)
next
  case (Cons c s)
  then have ih: "read_literal (escapeQuotes s @ quote # rest) = Some (s, rest)" by simp
  show ?case
  proof (cases "c = quote")
    case True
    then show ?thesis using ih by (simp del: read_literal.simps add: read_literal_escaped_quote)
  next
    case False
    moreover from Cons.prems have "c \<noteq> backslash" by auto
    ultimately show ?thesis using ih by (simp del: read_literal.simps add: read_literal_plain)
  qed
qed

lemma scan_searchFormula:
  "backslash \<notin> set t \<Longrightarrow> scan Outside (searchFormula (escapeQuotes t)) = Outside"
  by (simp add: searchFormula_def scan_append scan_escaped_term)

lemma scan_join:
  "(\<And>x. x \<in> set xs \<Longrightarrow> scan Outside x = Outside) \<Longrightarrow> scan Outside (join '', '' xs) = Outside"
  by (induction "'', ''" xs rule: join.induct) (simp_all add: scan_append)

lemma literals_closed_categoryClause:
  assumes "\<And>t. t \<in> set ts \<Longrightarrow> backslash \<notin> set t"
  shows "literals_closed (categoryClause (map escapeQuotes ts))"
proof -
  have "scan Outside (join '', '' (map searchFormula (map escapeQuotes ts))) = Outside"
    by (rule scan_join) (auto simp: scan_searchFormula assms)
  then show ?thesis
    by (simp add: literals_closed_def categoryClause_def scan_append)
qed


text \<open>
  What holds for a category string without a backslash: every literal of the formula is
  closed, and the store reads each escaped term back as the term of the specification's
  list, so the clause is an OR over searches for exactly those terms.
\<close>

lemma category_without_backslash:
  assumes "backslash \<notin> set cats"
  shows "literals_closed (filterByFormula \<lparr> q_search = None, q_category = Some cats,
                                           q_sortBy = sb, q_sortOrder = so \<rparr>)
       \<and> (\<forall>t \<in> set (specTerms cats). \<forall>rest.
             read_literal (escapeQuotes t @ quote # rest) = Some (t, rest))"
proof -
  have n: "backslash \<notin> set t" if "t \<in> set (specTerms cats)" for t
    using specTerms_subset [OF that] assms by auto
  have c: "literals_closed (categoryClause (categoryList cats))"
    unfolding categoryList_specTerms by (rule literals_closed_categoryClause) (rule n)
  have "literals_closed (filterByFormula \<lparr> q_search = None, q_category = Some cats,
                                           q_sortBy = sb, q_sortOrder = so \<rparr>)"
    using c by (simp add: filterByFormula_def formulaParts_def searchParts_def categoryParts_def
                  literals_closed_def scan_append)
  moreover have "\<forall>t \<in> set (specTerms cats). \<forall>rest.
             read_literal (escapeQuotes t @ quote # rest) = Some (t, rest)"
    using n by (simp add: read_literal_escaped)
  ultimately show ?thesis by simp
qed

text \<open>
  C5. Take the category made of \<^verbatim>\<open>VR,a\<close> and a final backslash. It has no quote, so the
  code's term list is the list of the claim: \<^verbatim>\<open>VR\<close>, and \<^verbatim>\<open>a\<close> with the backslash. The
  clause pushed is an \<^verbatim>\<open>OR\<close> over a \<^verbatim>\<open>SEARCH\<close> for each of the two. The backslash is not
  escaped, so the store takes the closing quote of the second literal as a character of
  the term; the literal never closes, and the formula sent to the store ends inside it.
  The store is not given a clause that matches the records tagged VR.
\<close>

theorem category_term_trailing_backslash:
  "specTerms (''VR,a'' @ [backslash]) = [''VR'', ''a'' @ [backslash]]
   \<and> categoryList (''VR,a'' @ [backslash]) = [''VR'', ''a'' @ [backslash]]
   \<and> categoryParts (Some (''VR,a'' @ [backslash]))
       = [''OR(SEARCH('' @ [quote] @ ''VR'' @ [quote] @ '', {tags}), SEARCH(''
            @ [quote] @ ''a'' @ [backslash] @ [quote] @ '', {tags}))'']
   \<and> read_literal (''a'' @ [backslash] @ [quote] @ '', {tags})))'') = None
   \<and> \<not> literals_closed (filterByFormula \<lparr> q_search = None,
                                             q_category = Some (''VR,a'' @ [backslash]),
                                             q_sortBy = None, q_sortOrder = None \<rparr>)"
  by code_simp

section \<open>Properties of get by id\<close>

lemma sublist_notFoundMessage: "sublist ident (notFoundMessage ident)"
proof -
  have "notFoundMessage ident = (''Tool with ID '' @ [quote]) @ ident @ ([quote] @ '' not found'')"
    by (simp add: notFoundMessage_def)
  then show ?thesis
    unfolding sublist_def by blast
qed

text \<open>
  C7. With a table configured, get by id asks the store once. It fails with status 404
  exactly when the store's error says the id is unknown (\<^verbatim>\<open>statusCode\<close> 404 or \<^verbatim>\<open>error\<close>
  \<^verbatim>\<open>NOT_FOUND\<close>), and then the message contains the id; any other store error is passed
  on as it is and answered with status 500; and a record found is answered normalized,
  with the id of the record the store returned, which is the requested id when the store
  returns the record that was asked for.
\<close>

theorem getTool_outcomes:
  "t \<noteq> [] \<Longrightarrow>
   fst (getTool (Some t) st ident) = [Find t ident]
   \<and> ((\<exists>e. snd (getTool (Some t) st ident) = Inl (Next e) \<and> status e = Some 404)
        \<longleftrightarrow> (\<exists>err. st_find st t ident = Inl err
                    \<and> (statusCode err = Some 404 \<or> error err = Some ''NOT_FOUND'')))
   \<and> (st_find st t ident = Inl err \<and> (statusCode err = Some 404 \<or> error err = Some ''NOT_FOUND'')
        \<longrightarrow> snd (getTool (Some t) st ident)
              = Inl (Next \<lparr> message = notFoundMessage ident, status = Some 404, details = None \<rparr>)
            \<and> http_status (Next \<lparr> message = notFoundMessage ident, status = Some 404,
                                   details = None \<rparr>) = Some 404
            \<and> sublist ident (notFoundMessage ident))
   \<and> (st_find st t ident = Inl err \<and> \<not> (statusCode err = Some 404 \<or> error err = Some ''NOT_FOUND'')
        \<longrightarrow> snd (getTool (Some t) st ident) = Inl (NextStore err)
            \<and> http_status (NextStore err) = Some 500)
   \<and> (st_find st t ident = Inr r
        \<longrightarrow> snd (getTool (Some t) st ident) = Inr (formatRecord r)
            \<and> tool_id (formatRecord r) = rec_id r
            \<and> (rec_id r = ident \<longrightarrow> tool_id (formatRecord r) = ident))"
  by (cases "st_find st t ident")
     (auto simp: getTool_def sublist_notFoundMessage formatRecord_def Let_def)

theorem getTool_outcomes_witness:
  "''Tools'' \<noteq> []
   \<and> st_find sampleStore ''Tools'' ''recX'' = Inl notFound
   \<and> snd (getTool (Some ''Tools'') sampleStore ''recX'')
       = Inl (Next \<lparr> message = ''Tool with ID '' @ [quote] @ ''recX'' @ [quote] @ '' not found'',
                      status = Some 404, details = None \<rparr>)
   \<and> st_find downStore ''Tools'' ''rec1'' = Inl unavailable
   \<and> snd (getTool (Some ''Tools'') downStore ''rec1'') = Inl (NextStore unavailable)
   \<and> st_find sampleStore ''Tools'' ''rec1'' = Inr sampleRecord
   \<and> rec_id sampleRecord = ''rec1''
   \<and> snd (getTool (Some ''Tools'') sampleStore ''rec1'') = Inr (formatRecord sampleRecord)
   \<and> tool_id (formatRecord sampleRecord) = ''rec1''"
  using getTool_outcomes [of "''Tools''" sampleStore "''recX''" notFound sampleRecord]
        getTool_outcomes [of "''Tools''" downStore "''rec1''" unavailable sampleRecord]
        getTool_outcomes [of "''Tools''" sampleStore "''rec1''" notFound sampleRecord]
  by (simp add: sampleStore_def downStore_def notFound_def unavailable_def sampleRecord_def
        notFoundMessage_def)

section \<open>Properties of create\<close>

subsection \<open>Validation\<close>

lemma blank_cases:
  "blank v \<noteq> None \<Longrightarrow> v = None \<or> v = Some JNull \<or> (\<exists>s. v = Some (JStr s))"
  by (cases v rule: blank.cases) auto

lemma required_keys:
  assumes "blank v \<noteq> None"
  shows "\<exists>e. required key msg v = Some e
       \<and> e = (if blank v = Some True then [(key, msg)] else [])"
proof -
  from assms obtain b where "blank v = Some b" by blast
  then show ?thesis by (cases b) (simp_all add: required_def)
qed

lemma checkURL_keys:
  "blank v \<noteq> None \<Longrightarrow>
   \<exists>e. checkURL parseURL v = Some e
       \<and> e = (if blank v = Some True then [(''URL'', ''Tool URL is required'')]
               else if (\<exists>s. v = Some (JStr s) \<and> \<not> parseURL s) then [(''URL'', ''Invalid URL format'')]
               else [])"
  using blank_cases [of v] by auto

lemma set_if_single: "x \<in> S \<Longrightarrow> set (if c then [x] else []) \<subseteq> S"
  by (cases c) simp_all

lemma set_if_two:
  "x \<in> S \<Longrightarrow> y \<in> S \<Longrightarrow> set (if c then [x] else if d then [y] else []) \<subseteq> S"
  by (cases c; cases d) simp_all

lemma submitTool_calls:
  "fst (submitTool tableName parseURL st rd) \<noteq> [] \<Longrightarrow> validate parseURL rd = Some []"
  by (auto simp: submitTool_def split: option.splits if_splits)

text \<open>
  C3 (as amended). Take a body whose four required entries are each absent, \<^verbatim>\<open>null\<close> or
  a string, and a configured table. Validation gives an error list whose keys are, in the
  order Tool Name, URL, Description, Category, exactly the entries that are missing or
  blank after trimming, together with URL when it is a non-blank string that does not
  parse. So when the URL is blank or parses, the keys are exactly the missing or blank
  entries (two keys when two are missing). Every key carries its message, and when the
  list is not empty the request fails with status 400 and these details, and the store is
  not called.
\<close>

theorem submit_validation:
  assumes t: "t \<noteq> []"
    and b: "\<forall>k \<in> {''Tool Name'', ''URL'', ''Description'', ''Category''}. blank (rd k) \<noteq> None"
  shows "\<exists>errs. validate parseURL rd = Some errs
      \<and> map fst errs =
          filter (\<lambda>k. blank (rd k) = Some True
                       \<or> (k = ''URL'' \<and> (\<exists>s. rd k = Some (JStr s) \<and> \<not> parseURL s)))
            [''Tool Name'', ''URL'', ''Description'', ''Category'']
      \<and> ((\<forall>s. rd ''URL'' = Some (JStr s) \<longrightarrow> trim s = [] \<or> parseURL s) \<longrightarrow>
           map fst errs = filter (\<lambda>k. blank (rd k) = Some True)
                            [''Tool Name'', ''URL'', ''Description'', ''Category''])
      \<and> set errs \<subseteq> {(''Tool Name'', ''Tool Name is required''), (''URL'', ''Tool URL is required''),
                     (''URL'', ''Invalid URL format''), (''Description'', ''Description is required''),
                     (''Category'', ''Category is required'')}
      \<and> (errs \<noteq> [] \<longrightarrow>
           submitTool (Some t) parseURL st rd =
             ([], Inl (Next \<lparr> message = ''Validation failed'', status = Some 400,
                              details = Some errs \<rparr>))
           \<and> http_status (Next \<lparr> message = ''Validation failed'', status = Some 400,
                                  details = Some errs \<rparr>) = Some 400)"
proof -
  from b have b1: "blank (rd ''Tool Name'') \<noteq> None" and b2: "blank (rd ''URL'') \<noteq> None"
    and b3: "blank (rd ''Description'') \<noteq> None" and b4: "blank (rd ''Category'') \<noteq> None"
    by simp_all
  obtain e1 where e1: "required ''Tool Name'' ''Tool Name is required'' (rd ''Tool Name'') = Some e1"
    "e1 = (if blank (rd ''Tool Name'') = Some True then [(''Tool Name'', ''Tool Name is required'')] else [])"
    using required_keys [OF b1] by blast
  obtain e2 where e2: "checkURL parseURL (rd ''URL'') = Some e2"
    "e2 = (if blank (rd ''URL'') = Some True then [(''URL'', ''Tool URL is required'')]
           else if (\<exists>s. rd ''URL'' = Some (JStr s) \<and> \<not> parseURL s) then [(''URL'', ''Invalid URL format'')]
           else [])"
    using checkURL_keys [OF b2] by blast
  obtain e3 where e3: "required ''Description'' ''Description is required'' (rd ''Description'') = Some e3"
    "e3 = (if blank (rd ''Description'') = Some True then [(''Description'', ''Description is required'')] else [])"
    using required_keys [OF b3] by blast
  obtain e4 where e4: "required ''Category'' ''Category is required'' (rd ''Category'') = Some e4"
    "e4 = (if blank (rd ''Category'') = Some True then [(''Category'', ''Category is required'')] else [])"
    using required_keys [OF b4] by blast
  let ?errs = "e1 @ e2 @ e3 @ e4"
  have v: "validate parseURL rd = Some ?errs"
    by (simp add: validate_def e1(1) e2(1) e3(1) e4(1))
  have k: "map fst ?errs =
          filter (\<lambda>k. blank (rd k) = Some True
                       \<or> (k = ''URL'' \<and> (\<exists>s. rd k = Some (JStr s) \<and> \<not> parseURL s)))
            [''Tool Name'', ''URL'', ''Description'', ''Category'']"
    by (simp add: e1(2) e2(2) e3(2) e4(2))
  have e2': "e2 = (if blank (rd ''URL'') = Some True then [(''URL'', ''Tool URL is required'')] else [])"
    if a: "\<forall>s. rd ''URL'' = Some (JStr s) \<longrightarrow> trim s = [] \<or> parseURL s"
  proof (cases "\<exists>s. rd ''URL'' = Some (JStr s) \<and> \<not> parseURL s")
    case True
    then obtain s where s: "rd ''URL'' = Some (JStr s)" "\<not> parseURL s" by blast
    with a have "trim s = []" by blast
    with s have "blank (rd ''URL'') = Some True" by simp
    then show ?thesis by (simp add: e2(2))
  next
    case False
    then show ?thesis by (simp add: e2(2))
  qed
  have u: "map fst ?errs = filter (\<lambda>k. blank (rd k) = Some True)
                            [''Tool Name'', ''URL'', ''Description'', ''Category'']"
    if a: "\<forall>s. rd ''URL'' = Some (JStr s) \<longrightarrow> trim s = [] \<or> parseURL s"
    unfolding e2' [OF a] by (simp add: e1(2) e3(2) e4(2))
  let ?S = "{(''Tool Name'', ''Tool Name is required''), (''URL'', ''Tool URL is required''),
             (''URL'', ''Invalid URL format''), (''Description'', ''Description is required''),
             (''Category'', ''Category is required'')}"
  have m1: "set e1 \<subseteq> ?S" unfolding e1(2) by (rule set_if_single) simp
  have m2: "set e2 \<subseteq> ?S" unfolding e2(2) by (rule set_if_two) simp_all
  have m3: "set e3 \<subseteq> ?S" unfolding e3(2) by (rule set_if_single) simp
  have m4: "set e4 \<subseteq> ?S" unfolding e4(2) by (rule set_if_single) simp
  have m: "set ?errs \<subseteq> ?S"
    unfolding set_append Un_subset_iff by (intro conjI m1 m2 m3 m4)
  have s: "submitTool (Some t) parseURL st rd =
             ([], Inl (Next \<lparr> message = ''Validation failed'', status = Some 400,
                              details = Some ?errs \<rparr>))" if "?errs \<noteq> []"
    using that t by (simp add: submitTool_def v)
  have h: "http_status (Next \<lparr> message = ''Validation failed'', status = Some 400,
                                  details = Some ?errs \<rparr>) = Some 400"
    by simp
  show ?thesis
  proof (intro exI [of _ ?errs] conjI impI)
    show "validate parseURL rd = Some ?errs" by (rule v)
    show "map fst ?errs =
          filter (\<lambda>k. blank (rd k) = Some True
                       \<or> (k = ''URL'' \<and> (\<exists>s. rd k = Some (JStr s) \<and> \<not> parseURL s)))
            [''Tool Name'', ''URL'', ''Description'', ''Category'']" by (rule k)
    show "map fst ?errs = filter (\<lambda>k. blank (rd k) = Some True)
                            [''Tool Name'', ''URL'', ''Description'', ''Category'']"
      if "\<forall>s. rd ''URL'' = Some (JStr s) \<longrightarrow> trim s = [] \<or> parseURL s"
      using that by (rule u)
    show "set ?errs \<subseteq> ?S" by (rule m)
    show "submitTool (Some t) parseURL st rd =
             ([], Inl (Next \<lparr> message = ''Validation failed'', status = Some 400,
                              details = Some ?errs \<rparr>))" if "?errs \<noteq> []"
      using that by (rule s)
    show "http_status (Next \<lparr> message = ''Validation failed'', status = Some 400,
                                  details = Some ?errs \<rparr>) = Some 400"
      by (rule h)
  qed
qed


theorem submit_validation_witness:
  "''Tools'' \<noteq> []
   \<and> blank (twoMissing ''Tool Name'') = Some True
   \<and> blank (twoMissing ''URL'') = Some False
   \<and> blank (twoMissing ''Description'') = Some True
   \<and> blank (twoMissing ''Category'') = Some False
   \<and> validate hasScheme twoMissing
       = Some [(''Tool Name'', ''Tool Name is required''), (''Description'', ''Description is required'')]
   \<and> submitTool (Some ''Tools'') hasScheme sampleStore twoMissing
       = ([], Inl (Next \<lparr> message = ''Validation failed'', status = Some 400,
                        details = Some [(''Tool Name'', ''Tool Name is required''),
                                        (''Description'', ''Description is required'')] \<rparr>))"
proof -
  have b: "\<forall>k \<in> {''Tool Name'', ''URL'', ''Description'', ''Category''}. blank (twoMissing k) \<noteq> None"
    by (auto simp: twoMissing_def)
  have v: "validate hasScheme twoMissing
       = Some [(''Tool Name'', ''Tool Name is required''), (''Description'', ''Description is required'')]"
    by code_simp
  have t: "''Tools'' \<noteq> []" by simp
  have c: "blank (twoMissing ''Tool Name'') = Some True" "blank (twoMissing ''URL'') = Some False"
    "blank (twoMissing ''Description'') = Some True" "blank (twoMissing ''Category'') = Some False"
    by code_simp+
  from submit_validation [OF t b, of hasScheme sampleStore] v c show ?thesis
    by auto
qed

text \<open>
  C3 as stated fails when a present URL does not parse: with the name and the description
  missing and the URL \<^verbatim>\<open>notaurl\<close>, exactly two of the four entries are missing or blank,
  and the details have three keys.
\<close>

theorem submit_validation_counterexample:
  "blank (twoMissingBadURL ''Tool Name'') = Some True
   \<and> blank (twoMissingBadURL ''Description'') = Some True
   \<and> blank (twoMissingBadURL ''URL'') = Some False
   \<and> blank (twoMissingBadURL ''Category'') = Some False
   \<and> submitTool (Some ''Tools'') hasScheme sampleStore twoMissingBadURL
       = ([], Inl (Next \<lparr> message = ''Validation failed'', status = Some 400,
                        details = Some [(''Tool Name'', ''Tool Name is required''),
                                        (''URL'', ''Invalid URL format''),
                                        (''Description'', ''Description is required'')] \<rparr>))"
  by code_simp

subsection \<open>The record created\<close>

lemma blank_False: "blank v = Some False \<Longrightarrow> \<exists>s. v = Some (JStr s) \<and> trim s \<noteq> []"
  by (cases v rule: blank.cases) auto

lemma required_Nil:
  assumes "required key msg v = Some []"
  shows "\<exists>s. v = Some (JStr s) \<and> trim s \<noteq> []"
proof -
  from assms obtain b where b: "blank v = Some b" and e: "(if b then [(key, msg)] else []) = []"
    by (auto simp: required_def)
  from e have "\<not> b" by (cases b) simp_all
  with b show ?thesis by (simp add: blank_False)
qed

lemma checkURL_Nil:
  assumes "checkURL parseURL v = Some []"
  shows "\<exists>s. v = Some (JStr s) \<and> trim s \<noteq> [] \<and> parseURL s"
  using assms by (cases "(parseURL, v)" rule: checkURL.cases) (auto split: if_splits)

lemma validate_Nil:
  assumes "validate parseURL rd = Some []"
  shows "(\<exists>s. rd ''Tool Name'' = Some (JStr s) \<and> trim s \<noteq> [])
       \<and> (\<exists>s. rd ''URL'' = Some (JStr s) \<and> trim s \<noteq> [] \<and> parseURL s)
       \<and> (\<exists>s. rd ''Description'' = Some (JStr s) \<and> trim s \<noteq> [])
       \<and> (\<exists>s. rd ''Category'' = Some (JStr s) \<and> trim s \<noteq> [])"
proof -
  from assms have
    "required ''Tool Name'' ''Tool Name is required'' (rd ''Tool Name'') = Some []"
    "checkURL parseURL (rd ''URL'') = Some []"
    "required ''Description'' ''Description is required'' (rd ''Description'') = Some []"
    "required ''Category'' ''Category is required'' (rd ''Category'') = Some []"
    unfolding validate_def by (simp_all split: option.splits)
  then show ?thesis
    by (intro conjI required_Nil checkURL_Nil)
qed

lemma trim_Nil: "trim [] = []"
  by (simp add: trim_def)

text \<open>
  C8. For a body that passes validation, with a table configured: the store is called
  once, to create the single field map \<open>newToolData\<close>. Its keys are title, link,
  description and tags, followed by thumbnail exactly when the body has a truthy Image
  URL; the four values are the body's Tool Name, URL, Description and Category, the
  thumbnail is the body's Image URL, and no value sent is undefined, \<^verbatim>\<open>null\<close> or empty.
  The first record the store returns is answered with status 201, normalized by
  \<open>formatRecord\<close>, the function of the read paths; a store error is passed on.
\<close>

theorem submit_creates_one:
  assumes t: "t \<noteq> []" and v: "validate parseURL rd = Some []"
  shows "fst (submitTool (Some t) parseURL st rd) = [Create t [newToolData rd]]
     \<and> map fst (newToolData rd)
         = [''title'', ''link'', ''description'', ''tags'']
           @ (case rd ''Image URL'' of None \<Rightarrow> [] | Some x \<Rightarrow> if truthy x then [''thumbnail''] else [])
     \<and> map_of (newToolData rd) ''title'' = Some (rd ''Tool Name'')
     \<and> map_of (newToolData rd) ''link'' = Some (rd ''URL'')
     \<and> map_of (newToolData rd) ''description'' = Some (rd ''Description'')
     \<and> map_of (newToolData rd) ''tags'' = Some (rd ''Category'')
     \<and> (\<forall>v. (''thumbnail'', v) \<in> set (newToolData rd) \<longrightarrow> v = rd ''Image URL'')
     \<and> (\<forall>(k, v) \<in> set (newToolData rd). \<exists>x. v = Some x \<and> truthy x)
     \<and> (st_create st t [newToolData rd] = Inr (r # rs) \<longrightarrow>
           snd (submitTool (Some t) parseURL st rd) = Inr (201, formatRecord r))
     \<and> (st_create st t [newToolData rd] = Inl err \<longrightarrow>
           snd (submitTool (Some t) parseURL st rd) = Inl (NextStore err))"
proof -
  from validate_Nil [OF v] obtain a b c d where
    f: "rd ''Tool Name'' = Some (JStr a)" "rd ''URL'' = Some (JStr b)"
       "rd ''Description'' = Some (JStr c)" "rd ''Category'' = Some (JStr d)"
    and n: "trim a \<noteq> []" "trim b \<noteq> []" "trim c \<noteq> []" "trim d \<noteq> []"
    by blast
  from n have ne: "a \<noteq> []" "b \<noteq> []" "c \<noteq> []" "d \<noteq> []"
    using trim_Nil by auto
  have 1: "fst (submitTool (Some t) parseURL st rd) = [Create t [newToolData rd]]"
    using t by (simp add: submitTool_def v)
  have 2: "map fst (newToolData rd)
         = [''title'', ''link'', ''description'', ''tags'']
           @ (case rd ''Image URL'' of None \<Rightarrow> [] | Some x \<Rightarrow> if truthy x then [''thumbnail''] else [])"
    by (simp add: newToolData_def split: option.splits)
  have 3: "map_of (newToolData rd) ''title'' = Some (rd ''Tool Name'')"
    "map_of (newToolData rd) ''link'' = Some (rd ''URL'')"
    "map_of (newToolData rd) ''description'' = Some (rd ''Description'')"
    "map_of (newToolData rd) ''tags'' = Some (rd ''Category'')"
    by (simp_all add: newToolData_def)
  have 4: "\<forall>v. (''thumbnail'', v) \<in> set (newToolData rd) \<longrightarrow> v = rd ''Image URL''"
    by (cases "rd ''Image URL''") (simp_all add: newToolData_def)
  have 5: "\<forall>(k, v) \<in> set (newToolData rd). \<exists>x. v = Some x \<and> truthy x"
    by (cases "rd ''Image URL''") (simp_all add: newToolData_def f ne)
  have 6: "snd (submitTool (Some t) parseURL st rd) = Inr (201, formatRecord r)"
    if "st_create st t [newToolData rd] = Inr (r # rs)"
    using t that by (simp add: submitTool_def v)
  have 7: "snd (submitTool (Some t) parseURL st rd) = Inl (NextStore err)"
    if "st_create st t [newToolData rd] = Inl err"
    using t that by (simp add: submitTool_def v)
  show ?thesis
    using 1 2 3 4 5 6 7 by (intro conjI impI) assumption+
qed


theorem submit_creates_one_witness:
  "''Tools'' \<noteq> []
   \<and> validate hasScheme fullSubmission = Some []
   \<and> submitTool (Some ''Tools'') hasScheme sampleStore fullSubmission
       = ([Create ''Tools''
             [[(''title'', Some (JStr ''Orbit'')), (''link'', Some (JStr ''https://example.com'')),
               (''description'', Some (JStr ''A tour of the planets'')), (''tags'', Some (JStr ''Space'')),
               (''thumbnail'', Some (JStr ''https://example.com/orbit.png''))]]],
          Inr (201, formatRecord \<lparr> rec_id = ''rec2'', rec_fields = sent (newToolData fullSubmission) \<rparr>))
   \<and> map fst (newToolData (fullSubmission(''Image URL'' := None)))
       = [''title'', ''link'', ''description'', ''tags'']
   \<and> map fst (newToolData (fullSubmission(''Image URL'' \<mapsto> JStr [])))
       = [''title'', ''link'', ''description'', ''tags'']"
proof -
  have t: "''Tools'' \<noteq> []" by simp
  have v: "validate hasScheme fullSubmission = Some []" by code_simp
  have v1: "validate hasScheme (fullSubmission(''Image URL'' := None)) = Some []" by code_simp
  have v2: "validate hasScheme (fullSubmission(''Image URL'' \<mapsto> JStr [])) = Some []" by code_simp
  have n: "newToolData fullSubmission =
             [(''title'', Some (JStr ''Orbit'')), (''link'', Some (JStr ''https://example.com'')),
               (''description'', Some (JStr ''A tour of the planets'')), (''tags'', Some (JStr ''Space'')),
               (''thumbnail'', Some (JStr ''https://example.com/orbit.png''))]"
    by (simp add: newToolData_def fullSubmission_def)
  have c: "st_create sampleStore ''Tools'' [newToolData fullSubmission]
             = Inr [\<lparr> rec_id = ''rec2'', rec_fields = sent (newToolData fullSubmission) \<rparr>]"
    by (simp add: sampleStore_def)
  show ?thesis
    using submit_creates_one [OF t v, of sampleStore
            "\<lparr> rec_id = ''rec2'', rec_fields = sent (newToolData fullSubmission) \<rparr>" "[]"]
          submit_creates_one [OF t v1, of sampleStore]
          submit_creates_one [OF t v2, of sampleStore]
          v c
    by (simp add: n prod_eq_iff)
qed

section \<open>Properties of the debounced search\<close>

lemma run_append: "run pg (a @ b) = run (run pg a) b"
  by (induction a arbitrary: pg) simp_all

lemma fetchTools_searchTerm:
  "selectedCategories a = selectedCategories b \<Longrightarrow> sortValue a = sortValue b \<Longrightarrow>
   fetchTools (a\<lparr> searchTerm := v \<rparr>) = fetchTools (b\<lparr> searchTerm := v \<rparr>)"
  by (simp add: fetchTools_def)

lemma burst_keeps:
  assumes "pending pg = Some (v, clock pg + 400)" and "\<forall>(g, w) \<in> set ks. g < 400"
  shows "pending (run pg (burst ks)) = Some (last (v # map snd ks), clock (run pg (burst ks)) + 400)
       \<and> searchTerm (run pg (burst ks)) = searchTerm pg
       \<and> selectedCategories (run pg (burst ks)) = selectedCategories pg
       \<and> sortValue (run pg (burst ks)) = sortValue pg
       \<and> fetched (run pg (burst ks)) = fetched pg"
  using assms
proof (induction ks arbitrary: pg v)
  case Nil
  then show ?case by simp
next
  case (Cons k ks)
  obtain g w where k: "k = (g, w)" by (cases k)
  with Cons.prems have g: "g < 400" and rest: "\<forall>(g, w) \<in> set ks. g < 400" by auto
  let ?pg = "step (step pg (Wait g)) (Key w)"
  have e: "elapse g pg = pg\<lparr> clock := clock pg + g \<rparr>"
    using Cons.prems(1) g by (simp add: elapse_def)
  have p: "pending ?pg = Some (w, clock ?pg + 400)"
    and s: "searchTerm ?pg = searchTerm pg" "selectedCategories ?pg = selectedCategories pg"
      "sortValue ?pg = sortValue pg" "fetched ?pg = fetched pg"
    by (simp_all add: e handleSearchInputChange_def debouncedSetSearchTerm_def)
  have r: "run pg (burst (k # ks)) = run ?pg (burst ks)"
    by (simp add: k)
  show ?case
    unfolding r using Cons.IH [OF p rest] s by (simp add: k)
qed

text \<open>
  C9 (as amended). Take any page state, a first keystroke, further keystrokes each less
  than 400 units after the one before, and then a pause of at least 400 units. The
  keystrokes alone send no request. After the pause the settled term is the final text,
  nothing is pending, and at most one request was sent: exactly one when the final text
  differs from the term settled before the burst, none when it is the same. The request
  carries the final text as its search parameter, or no search parameter when the final
  text is empty.
\<close>

theorem debounced_search_fetch:
  assumes gaps: "\<forall>(gap, v) \<in> set ks. gap < 400" and pause: "400 \<le> p"
  shows "fetched (step pg (Key v0)) = fetched pg
     \<and> fetched (run pg (Key v0 # burst ks)) = fetched pg
     \<and> fetched (run pg (Key v0 # burst ks @ [Wait p]))
         = fetched pg @ (if last (v0 # map snd ks) = searchTerm pg then []
                         else [fetchTools (pg\<lparr> searchTerm := last (v0 # map snd ks) \<rparr>)])
     \<and> p_search (fetchTools (pg\<lparr> searchTerm := last (v0 # map snd ks) \<rparr>))
         = (if last (v0 # map snd ks) = [] then None else Some (last (v0 # map snd ks)))
     \<and> searchTerm (run pg (Key v0 # burst ks @ [Wait p])) = last (v0 # map snd ks)
     \<and> pending (run pg (Key v0 # burst ks @ [Wait p])) = None"
proof -
  define final where "final = last (v0 # map snd ks)"
  define k where "k = handleSearchInputChange v0 pg"
  define b where "b = run k (burst ks)"
  have k: "pending k = Some (v0, clock k + 400)" "searchTerm k = searchTerm pg"
    "selectedCategories k = selectedCategories pg" "sortValue k = sortValue pg"
    "fetched k = fetched pg"
    by (simp_all add: k_def handleSearchInputChange_def debouncedSetSearchTerm_def)
  from burst_keeps [OF k(1) gaps] k
  have b: "pending b = Some (final, clock b + 400)" "searchTerm b = searchTerm pg"
    "selectedCategories b = selectedCategories pg" "sortValue b = sortValue pg"
    "fetched b = fetched pg"
    unfolding b_def final_def by simp_all
  have r1: "run pg (Key v0 # burst ks) = b"
    by (simp add: b_def k_def)
  have r2: "run pg (Key v0 # burst ks @ [Wait p]) = elapse p b"
    by (simp add: run_append b_def k_def)
  have due: "clock b + 400 \<le> clock b + p" using pause by simp
  have e: "elapse p b = (setSearchTerm final (b\<lparr> pending := None \<rparr>))\<lparr> clock := clock b + p \<rparr>"
    unfolding elapse_def b(1) using due by simp
  have f: "fetchTools (b\<lparr> pending := None, searchTerm := final \<rparr>)
             = fetchTools (pg\<lparr> searchTerm := final \<rparr>)"
    by (simp add: fetchTools_def b)
  have 1: "fetched (run pg (Key v0 # burst ks)) = fetched pg"
    unfolding r1 by (rule b(5))
  have 2: "fetched (run pg (Key v0 # burst ks @ [Wait p]))
         = fetched pg @ (if final = searchTerm pg then []
                         else [fetchTools (pg\<lparr> searchTerm := final \<rparr>)])"
    unfolding r2 e using f by (simp add: setSearchTerm_def b)
  have 3: "p_search (fetchTools (pg\<lparr> searchTerm := final \<rparr>))
         = (if final = [] then None else Some final)"
    by (simp add: fetchTools_def Let_def)
  have 4: "searchTerm (run pg (Key v0 # burst ks @ [Wait p])) = final"
    unfolding r2 e by (simp add: setSearchTerm_def b)
  have 5: "pending (run pg (Key v0 # burst ks @ [Wait p])) = None"
    unfolding r2 e by (simp add: setSearchTerm_def b)
  have 0: "fetched (step pg (Key v0)) = fetched pg"
    using k(5) by (simp add: k_def)
  from 0 1 2 3 4 5 show ?thesis
    unfolding final_def by (intro conjI)
qed

theorem debounced_search_fetch_witness:
  "fetched (run mounted [Key ''v'', Wait 100, Key ''vr'', Wait 399, Key ''vr '', Wait 401])
     = fetched mounted @ [\<lparr> p_search = Some ''vr '', p_category = None,
                             p_sortBy = ''title'', p_sortOrder = ''asc'' \<rparr>]
   \<and> fetched (run mounted [Key ''v'', Wait 100, Key ''vr'', Wait 399, Key ''vr '']) = fetched mounted"
proof -
  have g: "\<forall>(gap, v) \<in> set [(100, ''vr''), (399, ''vr '')]. gap < (400::nat)" by simp
  have p: "(400::nat) \<le> 401" by simp
  have m: "searchTerm mounted = []"
    "fetchTools (mounted\<lparr> searchTerm := ''vr '' \<rparr>)
       = \<lparr> p_search = Some ''vr '', p_category = None, p_sortBy = ''title'', p_sortOrder = ''asc'' \<rparr>"
    by code_simp+
  from debounced_search_fetch [OF g p, of mounted "''v''"] m show ?thesis
    by simp
qed

text \<open>
  C9 as stated fails when the burst ends at the settled term: on the mounted page, typing
  a letter and deleting it within the interval sends no request after the pause. And when
  the box is emptied after the term \<^verbatim>\<open>vr\<close> has settled, the one request sent has no search
  parameter.
\<close>

theorem debounced_search_fetch_counterexample:
  "searchTerm mounted = []
   \<and> fetched (run mounted [Key ''a'', Wait 100, Key [], Wait 500]) = fetched mounted
   \<and> fetched (run (run mounted [Key ''vr'', Wait 400]) [Key ''v'', Wait 100, Key [], Wait 500])
       = fetched (run mounted [Key ''vr'', Wait 400])
         @ [\<lparr> p_search = None, p_category = None, p_sortBy = ''title'', p_sortOrder = ''asc'' \<rparr>]"
  by code_simp

end
